theory Spec2Isabelle
  imports Complex_Main
begin

section \<open>JavaScript values\<close>

text \<open>
  The library (\<^verbatim>\<open>src/src/baeunjs.js\<close>) is untyped JavaScript, so its functions are
  modelled over a datatype of the values they can be handed. A string is a list of
  characters, a character being a code unit from U+0000 to U+00FF. A number is an IEEE
  double: a finite one is represented by the rational it denotes, negative zero and the
  three non-finite values are constructors of their own.
  A function value is known by its identity only. An object is the list of its own
  enumerable properties in the order \<^verbatim>\<open>Object.keys\<close> lists them (keys distinct, as in
  every JavaScript object).

  A DOM node is a text node or an HTML element (what \<^verbatim>\<open>document.createElement\<close>
  makes), and is represented by the calls the library makes on it: an element is its tag
  name and the sequence of DOM calls that were applied to it since it was created, a
  text node is its text. A call the platform rejects throws and is not recorded. What
  the DOM does with a recorded call (reflection of a property into an attribute,
  re-parenting of a node that is appended twice) is the platform's and not interpreted.
\<close>

datatype jsnum = Finite rat | NegZero | NaN | PosInfinity | NegInfinity

datatype jsval =
    Undefined
  | Null
  | Bool bool
  | Num jsnum
  | Str string
  | Fun nat
  | Arr "jsval list"
  | Obj "(string \<times> jsval) list"
  | Node node
and node =
    TextNode string
  | HTMLElement string "dom_call list"
and dom_call =
    AddEventListener string jsval
  | SetClassName string
  | SetProperty string jsval
  | SetAttribute string string
  | AppendChild node

text \<open>The \<^verbatim>\<open>typeof\<close> operator.\<close>

fun typeof :: "jsval \<Rightarrow> string" where
  "typeof Undefined = ''undefined''"
| "typeof Null = ''object''"
| "typeof (Bool b) = ''boolean''"
| "typeof (Num n) = ''number''"
| "typeof (Str s) = ''string''"
| "typeof (Fun f) = ''function''"
| "typeof (Arr xs) = ''object''"
| "typeof (Obj kvs) = ''object''"
| "typeof (Node n) = ''object''"

text \<open>
  Errors are values. Each constructor is one of the exceptions the library throws itself
  or provokes from the language: the tag name check of \<^verbatim>\<open>elem\<close>, the last branch of
  \<^verbatim>\<open>appendChildren\<close>, the unsupported type of \<^verbatim>\<open>stateManager.set\<close>, the
  \<^verbatim>\<open>SyntaxError\<close> of \<^verbatim>\<open>JSON.parse\<close>, the language's \<^verbatim>\<open>TypeError\<close> (calling
  \<^verbatim>\<open>undefined\<close>, reading the keys or a property of \<^verbatim>\<open>null\<close>), the missing
  container of \<^verbatim>\<open>hashRouter\<close>, the \<^verbatim>\<open>InvalidCharacterError\<close> with which
  \<^verbatim>\<open>document.createElement\<close> and \<^verbatim>\<open>setAttribute\<close> reject a name, and the exception
  of an assignment to a property of an element that the platform rejects (a
  \<^verbatim>\<open>TypeError\<close> for a property without a setter, the module being strict code, or
  whatever the setter throws).
\<close>

datatype error =
    InvalidTagName
  | InvalidChildren
  | UnsupportedType
  | SyntaxError
  | TypeError
  | ElementNotFound
  | InvalidCharacterError
  | AssignmentRejected

text \<open>
  What the library asks of the platform and cannot be computed from the value alone:
  whether a key is a property of a freshly created element of a given tag
  (\<^verbatim>\<open>key in element\<close>), whether \<^verbatim>\<open>document.createElement\<close> accepts a tag name,
  whether \<^verbatim>\<open>setAttribute\<close> accepts an attribute name, whether the assignment of a
  value to a property of an element of a given tag completes, the string conversion of a
  number, a function or an object, and the numeric conversion of a string, a function or
  an object. They are parameters of the model.
\<close>

record platform =
  key_in_element :: "string \<Rightarrow> string \<Rightarrow> bool"
  createElement_accepts :: "string \<Rightarrow> bool"
  setAttribute_accepts :: "string \<Rightarrow> bool"
  assignment_accepts :: "string \<Rightarrow> string \<Rightarrow> jsval \<Rightarrow> bool"
  string_of :: "jsval \<Rightarrow> string"
  number_of :: "jsval \<Rightarrow> jsnum"


text \<open>\<^verbatim>\<open>Number(value)\<close> on the values whose conversion the language fixes.\<close>

fun Number_js :: "platform \<Rightarrow> jsval \<Rightarrow> jsnum" where
  "Number_js P Undefined = NaN"
| "Number_js P Null = Finite 0"
| "Number_js P (Bool b) = (if b then Finite 1 else Finite 0)"
| "Number_js P (Num n) = n"
| "Number_js P v = number_of P v"

section \<open>JSON\<close>

text \<open>
  \<^verbatim>\<open>JSON.stringify\<close> and \<^verbatim>\<open>JSON.parse\<close> are the platform's. They are modelled at the
  level of the JSON value a text denotes: \<open>json\<close> is the grammar of JSON texts, and the
  serialisation follows ECMAScript's SerializeJSONProperty: \<^verbatim>\<open>undefined\<close> and functions
  have no JSON form (dropped from an object, \<^verbatim>\<open>null\<close> in an array), a number that is
  not finite is written \<^verbatim>\<open>null\<close>, negative zero is written \<^verbatim>\<open>0\<close>, and a DOM node has
  no enumerable property of its own.
\<close>

datatype json =
    JNull
  | JBool bool
  | JNumber rat
  | JString string
  | JArray "json list"
  | JObject "(string \<times> json) list"

fun SerializeJSONProperty :: "jsval \<Rightarrow> json option"
  and SerializeJSONArray :: "jsval list \<Rightarrow> json list"
  and SerializeJSONObject :: "(string \<times> jsval) list \<Rightarrow> (string \<times> json) list" where
  "SerializeJSONProperty Undefined = None"
| "SerializeJSONProperty Null = Some JNull"
| "SerializeJSONProperty (Bool b) = Some (JBool b)"
| "SerializeJSONProperty (Num n) =
     Some (case n of Finite q \<Rightarrow> JNumber q | NegZero \<Rightarrow> JNumber 0 | _ \<Rightarrow> JNull)"
| "SerializeJSONProperty (Str s) = Some (JString s)"
| "SerializeJSONProperty (Fun f) = None"
| "SerializeJSONProperty (Arr xs) = Some (JArray (SerializeJSONArray xs))"
| "SerializeJSONProperty (Obj kvs) = Some (JObject (SerializeJSONObject kvs))"
| "SerializeJSONProperty (Node n) = Some (JObject [])"
| "SerializeJSONArray [] = []"
| "SerializeJSONArray (x # xs) =
     (case SerializeJSONProperty x of None \<Rightarrow> JNull | Some j \<Rightarrow> j) # SerializeJSONArray xs"
| "SerializeJSONObject [] = []"
| "SerializeJSONObject ((k, v) # kvs) =
     (case SerializeJSONProperty v of
        None \<Rightarrow> SerializeJSONObject kvs
      | Some j \<Rightarrow> (k, j) # SerializeJSONObject kvs)"

text \<open>The value a JSON text denotes, as \<^verbatim>\<open>JSON.parse\<close> builds it.\<close>

fun json_value :: "json \<Rightarrow> jsval"
  and json_values :: "json list \<Rightarrow> jsval list"
  and json_members :: "(string \<times> json) list \<Rightarrow> (string \<times> jsval) list" where
  "json_value JNull = Null"
| "json_value (JBool b) = Bool b"
| "json_value (JNumber q) = Num (Finite q)"
| "json_value (JString s) = Str s"
| "json_value (JArray js) = Arr (json_values js)"
| "json_value (JObject ms) = Obj (json_members ms)"
| "json_values [] = []"
| "json_values (j # js) = json_value j # json_values js"
| "json_members [] = []"
| "json_members ((k, j) # ms) = (k, json_value j) # json_members ms"

text \<open>
  A string held by the storage backend is either a JSON text, identified with the JSON
  value it denotes (the four characters \<^verbatim>\<open>null\<close> are \<open>JSONText JNull\<close>), or a string
  that is no JSON text, given by its characters (the empty string is \<open>NotJSON []\<close>).
\<close>

datatype stored = JSONText json | NotJSON string

text \<open>
  \<^verbatim>\<open>JSON.stringify(value)\<close> as the string \<^verbatim>\<open>localStorage.setItem\<close> then stores: where
  \<^verbatim>\<open>JSON.stringify\<close> returns \<^verbatim>\<open>undefined\<close>, \<^verbatim>\<open>setItem\<close> stores its string
  conversion.
\<close>

definition JSON_stringify :: "jsval \<Rightarrow> stored" where
  "JSON_stringify v =
     (case SerializeJSONProperty v of
        None \<Rightarrow> NotJSON ''undefined''
      | Some j \<Rightarrow> JSONText j)"

definition JSON_parse :: "stored \<Rightarrow> error + jsval" where
  "JSON_parse t = (case t of JSONText j \<Rightarrow> Inr (json_value j) | NotJSON s \<Rightarrow> Inl SyntaxError)"

text \<open>
  Reading the property \<open>k\<close> of a value, for a key that no prototype defines (the library
  reads \<^verbatim>\<open>type\<close> and \<^verbatim>\<open>value\<close>): reading from \<^verbatim>\<open>null\<close> or \<^verbatim>\<open>undefined\<close> throws, an
  object answers with its own property, anything else with \<^verbatim>\<open>undefined\<close>.
\<close>

definition get_property :: "jsval \<Rightarrow> string \<Rightarrow> error + jsval" where
  "get_property v k =
     (case v of
        Undefined \<Rightarrow> Inl TypeError
      | Null \<Rightarrow> Inl TypeError
      | Obj kvs \<Rightarrow> Inr (case map_of kvs k of None \<Rightarrow> Undefined | Some x \<Rightarrow> x)
      | _ \<Rightarrow> Inr Undefined)"

section \<open>The state manager\<close>

text \<open>
  The state of \<^verbatim>\<open>stateManager\<close> and of what it touches: the backend
  \<^verbatim>\<open>localStorage\<close> (string keys to strings), the registry \<^verbatim>\<open>this.callbacks\<close> (an
  object: its keys in \<^verbatim>\<open>Object.keys\<close> order, each with its array of callbacks), the
  callback invocations made so far (callback and argument, oldest first) and the lines
  written with \<^verbatim>\<open>console.error\<close> (message and error, oldest first).

  The backend is an ideal map: \<^verbatim>\<open>setItem\<close>, \<^verbatim>\<open>getItem\<close> and \<^verbatim>\<open>clear\<close> always
  succeed. A callback is code of the application: invoking it is recorded, and it is
  taken to return normally without calling back into the state manager. The registry is
  read by its own keys: a key that names a member of \<^verbatim>\<open>Object.prototype\<close> is taken
  not to occur.
\<close>

record state =
  localStorage :: "string \<rightharpoonup> stored"
  callbacks :: "(string \<times> nat list) list"
  invoked :: "(nat \<times> jsval) list"
  console :: "(string \<times> error) list"

text \<open>\<^verbatim>\<open>_triggerCallbacks(key, value)\<close>, lines 238-242.\<close>

definition triggerCallbacks :: "state \<Rightarrow> string \<Rightarrow> jsval \<Rightarrow> state" where
  "triggerCallbacks st key v =
     (case map_of (callbacks st) key of
        None \<Rightarrow> st
      | Some cbs \<Rightarrow> st\<lparr>invoked := invoked st @ map (\<lambda>callback. (callback, v)) cbs\<rparr>)"

text \<open>
  \<^verbatim>\<open>set(key, value)\<close>, lines 121-143. \<open>serialize\<close> is the \<^verbatim>\<open>if\<close> chain of the
  \<^verbatim>\<open>try\<close> block, \<open>stateManager_set\<close> the whole method with its \<^verbatim>\<open>catch\<close>.
\<close>

definition serialize :: "jsval \<Rightarrow> error + stored" where
  "serialize v =
     (if v = Null then Inr (JSONText JNull)
      else if typeof v = ''string'' \<or> typeof v = ''number''
        then Inr (JSON_stringify (Obj [(''type'', Str (typeof v)), (''value'', v)]))
      else if typeof v = ''object''
        then Inr (JSON_stringify (Obj [(''type'', Str ''object''), (''value'', v)]))
      else Inl UnsupportedType)"

definition stateManager_set :: "state \<Rightarrow> string \<Rightarrow> jsval \<Rightarrow> state" where
  "stateManager_set st key v =
     (case serialize v of
        Inr serializedValue \<Rightarrow>
          triggerCallbacks (st\<lparr>localStorage := (localStorage st)(key \<mapsto> serializedValue)\<rparr>) key v
      | Inl e \<Rightarrow>
          st\<lparr>console := console st @ [(''Error setting value in localStorage:'', e)]\<rparr>)"

text \<open>
  \<^verbatim>\<open>get(key)\<close>, lines 152-177. \<open>restore\<close> is the \<^verbatim>\<open>try\<close> block, \<open>stateManager_get\<close>
  the whole method: it returns the value and the state (the console may have a new line).
\<close>

definition restore :: "platform \<Rightarrow> stored option \<Rightarrow> error + jsval" where
  "restore P item =
     (case item of
        None \<Rightarrow> Inr Null
      | Some serializedValue \<Rightarrow>
          if serializedValue = NotJSON [] then Inr Null
          else if serializedValue = JSONText JNull then Inr Null
          else
            (case JSON_parse serializedValue of
               Inl e \<Rightarrow> Inl e
             | Inr parsed \<Rightarrow>
                 (case get_property parsed ''type'' of
                    Inl e \<Rightarrow> Inl e
                  | Inr type \<Rightarrow>
                      (case get_property parsed ''value'' of
                         Inl e \<Rightarrow> Inl e
                       | Inr val \<Rightarrow>
                           if type = Str ''string'' then Inr val
                           else if type = Str ''number'' then Inr (Num (Number_js P val))
                           else if type = Str ''object'' then Inr val
                           else Inr Null))))"

definition stateManager_get :: "platform \<Rightarrow> state \<Rightarrow> string \<Rightarrow> jsval \<times> state" where
  "stateManager_get P st key =
     (case restore P (localStorage st key) of
        Inr v \<Rightarrow> (v, st)
      | Inl e \<Rightarrow>
          (Null, st\<lparr>console := console st @ [(''Error getting value from localStorage:'', e)]\<rparr>))"

text \<open>\<^verbatim>\<open>clear()\<close>, lines 209-218.\<close>

definition stateManager_clear :: "state \<Rightarrow> state" where
  "stateManager_clear st =
     foldl (\<lambda>s key. triggerCallbacks s key Null)
       (st\<lparr>localStorage := Map.empty\<rparr>)
       (map fst (callbacks st))"

text \<open>
  The values that survive JSON: \<^verbatim>\<open>null\<close>, booleans, finite numbers other than negative
  zero, strings, and arrays and objects built from these.
\<close>

fun json_representable :: "jsval \<Rightarrow> bool"
  and json_representable_list :: "jsval list \<Rightarrow> bool"
  and json_representable_props :: "(string \<times> jsval) list \<Rightarrow> bool" where
  "json_representable Undefined = False"
| "json_representable Null = True"
| "json_representable (Bool b) = True"
| "json_representable (Num n) = (case n of Finite q \<Rightarrow> True | _ \<Rightarrow> False)"
| "json_representable (Str s) = True"
| "json_representable (Fun f) = False"
| "json_representable (Arr xs) = json_representable_list xs"
| "json_representable (Obj kvs) = json_representable_props kvs"
| "json_representable (Node n) = False"
| "json_representable_list [] = True"
| "json_representable_list (x # xs) = (json_representable x \<and> json_representable_list xs)"
| "json_representable_props [] = True"
| "json_representable_props ((k, v) # kvs) = (json_representable v \<and> json_representable_props kvs)"

section \<open>The element builder\<close>


















section \<open>The hash router\<close>

text \<open>
  Truthiness, as \<^verbatim>\<open>||\<close> tests it.
\<close>

fun truthy :: "jsval \<Rightarrow> bool" where
  "truthy Undefined = False"
| "truthy Null = False"
| "truthy (Bool b) = b"
| "truthy (Num n) = (n \<noteq> Finite 0 \<and> n \<noteq> NegZero \<and> n \<noteq> NaN)"
| "truthy (Str s) = (s \<noteq> [])"
| "truthy v = True"

text \<open>
  \<^verbatim>\<open>window.location.hash\<close> for a URL with the given fragment: empty when the fragment is
  empty or absent, otherwise \<^verbatim>\<open>#\<close> followed by the fragment.
\<close>

definition window_location_hash :: "string \<Rightarrow> string" where
  "window_location_hash fragment = (if fragment = [] then [] else CHR ''#'' # fragment)"

text \<open>
  Reading a property of a plain object, such as a route table written as an object
  literal: its own property under the key if it has one, else the member it inherits from
  \<^verbatim>\<open>Object.prototype\<close> under that key (\<^verbatim>\<open>constructor\<close>, \<^verbatim>\<open>toString\<close>, ...), else
  \<^verbatim>\<open>undefined\<close>. The members of \<^verbatim>\<open>Object.prototype\<close> are a parameter.
\<close>

definition read_plain_object ::
  "(string \<rightharpoonup> jsval) \<Rightarrow> (string \<times> jsval) list \<Rightarrow> string \<Rightarrow> jsval" where
  "read_plain_object inherited kvs key =
     (case map_of kvs key of
        Some v \<Rightarrow> v
      | None \<Rightarrow> (case inherited key of Some m \<Rightarrow> m | None \<Rightarrow> Undefined))"

text \<open>
  \<^verbatim>\<open>render\<close>, lines 9-14. The route table is given by what reading a property of it
  answers (\<^verbatim>\<open>routes[hash]\<close>; \<^verbatim>\<open>undefined\<close> where it has none), the application's
  functions by what calling one with no argument returns, \<^verbatim>\<open>window.location.hash\<close> by
  its string (empty, or \<^verbatim>\<open>#\<close> and the fragment), and the container \<^verbatim>\<open>app\<close> by its
  child nodes. The result is the exception that left \<^verbatim>\<open>render\<close>, if one did, and the
  container's child nodes afterwards.
\<close>

definition render ::
  "(string \<Rightarrow> jsval) \<Rightarrow> (nat \<Rightarrow> jsval) \<Rightarrow> string \<Rightarrow> node list \<Rightarrow> error option \<times> node list" where
  "render routes call location_hash app =
     (let hash = (if drop 1 location_hash = [] then ''/'' else drop 1 location_hash);
          component = (if truthy (routes hash) then routes hash else routes ''*'');
          app1 = []
      in (case component of
            Fun f \<Rightarrow>
              (case call f of
                 Node n \<Rightarrow> (None, app1 @ [n])
               | _ \<Rightarrow> (Some TypeError, app1))
          | _ \<Rightarrow> (Some TypeError, app1)))"

text \<open>
  \<^verbatim>\<open>hashRouter(routes, appId)\<close>, lines 1-23: the document is given by the child nodes
  of each element that has an id. It looks the container up, throws if there is none,
  and renders once; the handler it registers and returns is \<open>render\<close> on that container.
\<close>

definition hashRouter ::
  "(string \<Rightarrow> jsval) \<Rightarrow> (nat \<Rightarrow> jsval) \<Rightarrow> string \<Rightarrow> string \<Rightarrow> (string \<rightharpoonup> node list)
     \<Rightarrow> error option \<times> (string \<rightharpoonup> node list)" where
  "hashRouter routes call appId location_hash document =
     (case document appId of
        None \<Rightarrow> (Some ElementNotFound, document)
      | Some app \<Rightarrow>
          (case render routes call location_hash app of
             (r, app1) \<Rightarrow> (r, document(appId \<mapsto> app1))))"

section \<open>Reference definitions and examples\<close>

text \<open>
  The invocations \<^verbatim>\<open>clear()\<close> is expected to make: every callback of every key of the
  registry, in registry order, each with \<^verbatim>\<open>null\<close>. \<open>lookup_notifications\<close> is the same
  list computed the way the code does, by looking each key up in the registry.
\<close>

definition notifications :: "(string \<times> nat list) list \<Rightarrow> (nat \<times> jsval) list" where
  "notifications registry =
     concat (map (\<lambda>(key, cbs). map (\<lambda>callback. (callback, Null)) cbs) registry)"

definition lookup_notifications ::
  "(string \<times> nat list) list \<Rightarrow> jsval \<Rightarrow> string list \<Rightarrow> (nat \<times> jsval) list" where
  "lookup_notifications registry v keys =
     concat (map (\<lambda>key. case map_of registry key of None \<Rightarrow> []
                        | Some cbs \<Rightarrow> map (\<lambda>callback. (callback, v)) cbs) keys)"

text \<open>
  The outcome of a sequence of steps that stops at the first exception: the first error,
  or the results of all of them in order.
\<close>

fun collect :: "(error + 'a) list \<Rightarrow> error + 'a list" where
  "collect [] = Inr []"
| "collect (r # rs) =
     (case r of
        Inl e \<Rightarrow> Inl e
      | Inr x \<Rightarrow> (case collect rs of Inl e \<Rightarrow> Inl e | Inr xs \<Rightarrow> Inr (x # xs)))"


text \<open>
  A platform and a state for the examples. \<^verbatim>\<open>id\<close>, \<^verbatim>\<open>onclick\<close> and \<^verbatim>\<open>tagName\<close>
  are the properties of an element, and an assignment to \<^verbatim>\<open>tagName\<close>, which has no
  setter, is rejected; \<^verbatim>\<open>document.createElement\<close> accepts a handful of tag names,
  \<^verbatim>\<open>setAttribute\<close> a name that is not empty and has no space; the conversions left to
  the platform answer \<^verbatim>\<open>?\<close> and \<^verbatim>\<open>NaN\<close>. The backend holds a string under
  \<^verbatim>\<open>theme\<close> and a number under \<^verbatim>\<open>count\<close>, and callbacks 0 and 1 watch \<^verbatim>\<open>theme\<close>,
  callback 2 watches \<^verbatim>\<open>user\<close>.
\<close>

definition example_platform :: platform where
  "example_platform =
     \<lparr>key_in_element = (\<lambda>t k. k = ''id'' \<or> k = ''onclick'' \<or> k = ''tagName''),
      createElement_accepts =
        (\<lambda>name. name \<in> set [''div'', ''p'', ''ul'', ''li'', ''button'', ''h1'', ''main'']),
      setAttribute_accepts = (\<lambda>key. key \<noteq> [] \<and> CHR '' '' \<notin> set key),
      assignment_accepts = (\<lambda>t k v. k \<noteq> ''tagName''),
      string_of = (\<lambda>v. ''?''),
      number_of = (\<lambda>v. NaN)\<rparr>"

definition example_state :: state where
  "example_state =
     \<lparr>localStorage =
        [''theme'' \<mapsto> JSONText (JObject [(''type'', JString ''string''), (''value'', JString ''dark'')]),
         ''count'' \<mapsto> JSONText (JObject [(''type'', JString ''number''), (''value'', JNumber 1)])],
      callbacks = [(''theme'', [0, 1]), (''user'', [2])],
      invoked = [],
      console = []\<rparr>"

text \<open>
  Route tables for the examples, given by what reading a property answers, with and
  without the wildcard, and an application whose function 0 builds a \<^verbatim>\<open>main\<close> element
  and whose function 1 builds an \<^verbatim>\<open>h1\<close>.

  \<open>example_Object_prototype\<close> has two of the members every plain object inherits:
  \<^verbatim>\<open>constructor\<close>, the function \<^verbatim>\<open>Object\<close> (function 2: called without arguments it
  returns an empty object), and \<^verbatim>\<open>toString\<close> (function 3: called without a receiver
  it returns the string \<^verbatim>\<open>[object Undefined]\<close>). \<open>example_route_object\<close> is the
  table \<^verbatim>\<open>{ "/": f, "*": g }\<close>, written as an object literal the way the README writes
  its table, with these members inherited.
\<close>

definition example_routes :: "string \<Rightarrow> jsval" where
  "example_routes key = (if key = ''/'' then Fun 0 else if key = ''*'' then Fun 1 else Undefined)"

definition example_routes_no_wildcard :: "string \<Rightarrow> jsval" where
  "example_routes_no_wildcard key = (if key = ''/'' then Fun 0 else Undefined)"

definition example_call :: "nat \<Rightarrow> jsval" where
  "example_call f =
     (if f = 0 then Node (HTMLElement ''main'' [])
      else if f = 2 then Obj []
      else if f = 3 then Str ''[object Undefined]''
      else Node (HTMLElement ''h1'' []))"

definition example_Object_prototype :: "string \<rightharpoonup> jsval" where
  "example_Object_prototype key =
     (if key = ''constructor'' then Some (Fun 2)
      else if key = ''toString'' then Some (Fun 3)
      else None)"

definition example_route_object :: "string \<Rightarrow> jsval" where
  "example_route_object =
     read_plain_object example_Object_prototype [(''/'', Fun 0), (''*'', Fun 1)]"

section \<open>Properties of the state manager\<close>

text \<open>
  Serialising a value that survives JSON and reading the text back gives the value again.
\<close>

lemma roundtrip:
  "json_representable v \<longrightarrow> (\<exists>j. SerializeJSONProperty v = Some j \<and> json_value j = v)"
  "json_representable_list xs \<longrightarrow> json_values (SerializeJSONArray xs) = xs"
  "json_representable_props kvs \<longrightarrow> json_members (SerializeJSONObject kvs) = kvs"
proof (induction v and xs and kvs rule: SerializeJSONProperty_SerializeJSONArray_SerializeJSONObject.induct)
  case (4 n)
  then show ?case by (cases n) auto
qed auto

lemma serialize_value:
  assumes "json_representable v"
  obtains j where "SerializeJSONProperty v = Some j" and "json_value j = v"
  using assms roundtrip(1) by blast

lemma triggerCallbacks_localStorage [simp]:
  "localStorage (triggerCallbacks st key v) = localStorage st"
  by (simp add: triggerCallbacks_def split: option.split)

lemma triggerCallbacks_callbacks [simp]:
  "callbacks (triggerCallbacks st key v) = callbacks st"
  by (simp add: triggerCallbacks_def split: option.split)

lemma triggerCallbacks_console [simp]:
  "console (triggerCallbacks st key v) = console st"
  by (simp add: triggerCallbacks_def split: option.split)

lemma restore_envelope:
  assumes "json_value j = v" and "tag = ''string'' \<or> tag = ''object'' \<or> (tag = ''number'' \<and> typeof v = ''number'')"
  shows "restore P (Some (JSONText (JObject [(''type'', JString tag), (''value'', j)]))) = Inr v"
  using assms
  by (cases v) (auto simp: restore_def JSON_parse_def get_property_def)

text \<open>
  C1 (amended). For every key, every state and every value \<open>v\<close> that is a string, a
  finite number other than negative zero, \<^verbatim>\<open>null\<close>, or an array or object built only
  from values that survive JSON (\<open>json_representable\<close>), \<^verbatim>\<open>get(key)\<close> right after
  \<^verbatim>\<open>set(key, v)\<close> returns \<open>v\<close> itself: equal in value and of the same kind, so the
  number 5 and the string \<^verbatim>\<open>"5"\<close> come back distinct.
\<close>

theorem set_get_roundtrip:
  assumes "json_representable v"
    and "typeof v = ''string'' \<or> typeof v = ''number'' \<or> typeof v = ''object''"
  shows "fst (stateManager_get P (stateManager_set st key v) key) = v"
proof (cases "v = Null")
  case True
  then show ?thesis
    by (simp add: stateManager_get_def stateManager_set_def serialize_def restore_def)
next
  case False
  from assms(1) obtain j where j: "SerializeJSONProperty v = Some j" "json_value j = v"
    by (rule serialize_value)
  define tag where "tag = typeof v"
  have ser: "serialize v = Inr (JSONText (JObject [(''type'', JString tag), (''value'', j)]))"
    using False assms(2) j(1) by (auto simp: serialize_def JSON_stringify_def tag_def)
  have "restore P (Some (JSONText (JObject [(''type'', JString tag), (''value'', j)]))) = Inr v"
    using j(2) assms(2) by (intro restore_envelope) (auto simp: tag_def)
  then show ?thesis
    by (simp add: stateManager_get_def stateManager_set_def ser)
qed

text \<open>The number 5 and the string \<^verbatim>\<open>"5"\<close>, stored under the same key of the example state.\<close>

theorem set_get_roundtrip_witness:
  "json_representable (Num (Finite 5)) \<and> json_representable (Str ''5'')
   \<and> fst (stateManager_get example_platform (stateManager_set example_state ''count'' (Num (Finite 5))) ''count'') = Num (Finite 5)
   \<and> fst (stateManager_get example_platform (stateManager_set example_state ''count'' (Str ''5'')) ''count'') = Str ''5''
   \<and> Num (Finite 5) \<noteq> Str ''5''"
  using set_get_roundtrip [of "Num (Finite 5)" example_platform example_state "''count''"]
    set_get_roundtrip [of "Str ''5''" example_platform example_state "''count''"]
  by simp

text \<open>
  The claim as the specification words it, for every number, fails at \<^verbatim>\<open>NaN\<close>: the
  envelope is written as \<^verbatim>\<open>{"type":"number","value":null}\<close> and \<^verbatim>\<open>Number(null)\<close> is 0.
\<close>

theorem set_get_NaN_counterexample:
  "typeof (Num NaN) = ''number''
   \<and> fst (stateManager_get example_platform (stateManager_set example_state ''count'' (Num NaN)) ''count'') = Num (Finite 0)
   \<and> Num (Finite 0) \<noteq> Num NaN"
  by (simp add: stateManager_get_def stateManager_set_def example_platform_def example_state_def
      serialize_def restore_def JSON_stringify_def JSON_parse_def get_property_def triggerCallbacks_def)

text \<open>
  C2. For every key and every value whose \<^verbatim>\<open>typeof\<close> is neither \<^verbatim>\<open>string\<close> nor
  \<^verbatim>\<open>number\<close> nor \<^verbatim>\<open>object\<close> (so not \<^verbatim>\<open>null\<close> either: a function, a boolean,
  \<^verbatim>\<open>undefined\<close>), \<^verbatim>\<open>set(key, value)\<close> returns normally and changes nothing but the
  console, which gets the one line of the caught unsupported-type error: the backend is
  as it was, no callback is invoked, and \<^verbatim>\<open>get(key)\<close> answers as before.
\<close>

theorem set_unsupported_noop:
  assumes "typeof v \<noteq> ''string''" and "typeof v \<noteq> ''number''" and "typeof v \<noteq> ''object''"
  shows "stateManager_set st key v =
           st\<lparr>console := console st @ [(''Error setting value in localStorage:'', UnsupportedType)]\<rparr>
         \<and> localStorage (stateManager_set st key v) = localStorage st
         \<and> invoked (stateManager_set st key v) = invoked st
         \<and> fst (stateManager_get P (stateManager_set st key v) key) = fst (stateManager_get P st key)"
proof -
  have "v \<noteq> Null" using assms(3) by auto
  then have "serialize v = Inl UnsupportedType"
    using assms by (simp add: serialize_def)
  then show ?thesis
    by (simp add: stateManager_set_def stateManager_get_def split: sum.split)
qed

text \<open>A function stored under \<^verbatim>\<open>theme\<close>, which two callbacks watch.\<close>

theorem set_unsupported_noop_witness:
  "typeof (Fun 7) \<noteq> ''string'' \<and> typeof (Fun 7) \<noteq> ''number'' \<and> typeof (Fun 7) \<noteq> ''object''
   \<and> stateManager_set example_state ''theme'' (Fun 7) =
       example_state\<lparr>console := [(''Error setting value in localStorage:'', UnsupportedType)]\<rparr>
   \<and> invoked (stateManager_set example_state ''theme'' (Fun 7)) = []
   \<and> fst (stateManager_get example_platform (stateManager_set example_state ''theme'' (Fun 7)) ''theme'') = Str ''dark''"
  using set_unsupported_noop [of "Fun 7" example_state "''theme''" example_platform]
  by (simp add: example_state_def stateManager_get_def restore_def JSON_parse_def get_property_def)

text \<open>The loop of \<^verbatim>\<open>clear()\<close> touches the invocation record only.\<close>

lemma foldl_triggerCallbacks_frame:
  "localStorage (foldl (\<lambda>s key. triggerCallbacks s key v) st keys) = localStorage st
   \<and> callbacks (foldl (\<lambda>s key. triggerCallbacks s key v) st keys) = callbacks st
   \<and> console (foldl (\<lambda>s key. triggerCallbacks s key v) st keys) = console st"
  by (induction keys arbitrary: st) simp_all

lemma foldl_triggerCallbacks_invoked:
  "invoked (foldl (\<lambda>s key. triggerCallbacks s key v) st keys) =
     invoked st @ lookup_notifications (callbacks st) v keys"
proof (induction keys arbitrary: st)
  case Nil
  then show ?case by (simp add: lookup_notifications_def)
next
  case (Cons key keys)
  have "invoked (triggerCallbacks st key v) @ lookup_notifications (callbacks st) v keys
        = invoked st @ lookup_notifications (callbacks st) v (key # keys)"
    by (simp add: triggerCallbacks_def lookup_notifications_def split: option.split)
  then show ?case by (simp add: Cons.IH)
qed

lemma lookup_own_entries:
  assumes "distinct (map fst registry)"
  shows "lookup_notifications registry Null (map fst registry) = notifications registry"
proof -
  have "\<forall>e \<in> set registry. map_of registry (fst e) = Some (snd e)"
    using assms by auto
  then have "map (\<lambda>key. case map_of registry key of None \<Rightarrow> []
                        | Some cbs \<Rightarrow> map (\<lambda>callback. (callback, Null)) cbs) (map fst registry)
             = map (\<lambda>(key, cbs). map (\<lambda>callback. (callback, Null)) cbs) registry"
    by (auto simp: case_prod_beta)
  then show ?thesis
    by (simp only: lookup_notifications_def notifications_def)
qed

text \<open>
  C8. \<^verbatim>\<open>clear()\<close> empties the whole backend, whatever keys it held, and invokes
  exactly the callbacks of the registry, each with \<^verbatim>\<open>null\<close>: every callback of every key
  that has callbacks, in registry order, and nothing for a key that has none (such a key
  is gone from the backend all the same). The registry's keys are distinct, as an
  object's are.
\<close>

theorem clear_wipes_and_notifies:
  assumes "distinct (map fst (callbacks st))"
  shows "localStorage (stateManager_clear st) = Map.empty
         \<and> invoked (stateManager_clear st) = invoked st @ notifications (callbacks st)
         \<and> callbacks (stateManager_clear st) = callbacks st
         \<and> console (stateManager_clear st) = console st"
proof -
  let ?st = "st\<lparr>localStorage := Map.empty\<rparr>"
  have "invoked (stateManager_clear st)
        = invoked ?st @ lookup_notifications (callbacks ?st) Null (map fst (callbacks st))"
    unfolding stateManager_clear_def by (rule foldl_triggerCallbacks_invoked)
  also have "\<dots> = invoked st @ notifications (callbacks st)"
    by (simp add: lookup_own_entries [OF assms])
  finally have "invoked (stateManager_clear st) = invoked st @ notifications (callbacks st)" .
  moreover have "localStorage (stateManager_clear st) = Map.empty"
    and "callbacks (stateManager_clear st) = callbacks st"
    and "console (stateManager_clear st) = console st"
    unfolding stateManager_clear_def
    using foldl_triggerCallbacks_frame [of Null ?st "map fst (callbacks st)"] by simp_all
  ultimately show ?thesis by simp
qed

text \<open>
  In the example state \<^verbatim>\<open>count\<close> has no callback and is removed without a notification;
  \<^verbatim>\<open>user\<close> has a callback and no entry in the backend, and is notified.
\<close>

theorem clear_wipes_and_notifies_witness:
  "distinct (map fst (callbacks example_state))
   \<and> localStorage (stateManager_clear example_state) ''count'' = None
   \<and> localStorage (stateManager_clear example_state) ''theme'' = None
   \<and> invoked (stateManager_clear example_state) = [(0, Null), (1, Null), (2, Null)]"
  using clear_wipes_and_notifies [of example_state]
  by (simp add: example_state_def notifications_def)

section \<open>Properties of the element builder and the router\<close>





lemma collect_error:
  "collect rs = Inl e \<Longrightarrow> Inl e \<in> set rs"
  by (induction rs) (auto split: sum.splits)






















text \<open>
  Where the route under the path, or else under \<^verbatim>\<open>*\<close>, is a function of the application
  that returns a node, \<^verbatim>\<open>render\<close> leaves the container with that node as its single
  child, and so does the first invocation made by \<^verbatim>\<open>hashRouter\<close>.
\<close>

lemma render_selected_route:
  assumes "path = (if fragment = [] then ''/'' else fragment)"
    and "routes path = Fun f \<or> (routes path = Undefined \<and> routes ''*'' = Fun f)"
    and "call f = Node n"
  shows "render routes call (window_location_hash fragment) app = (None, [n])
         \<and> (document appId = Some app \<longrightarrow>
              hashRouter routes call appId (window_location_hash fragment) document
              = (None, document(appId \<mapsto> [n])))"
proof -
  have hash: "(if drop 1 (window_location_hash fragment) = [] then ''/''
               else drop 1 (window_location_hash fragment)) = path"
    using assms(1) by (simp add: window_location_hash_def)
  have "(if truthy (routes path) then routes path else routes ''*'') = Fun f"
    using assms(2) by auto
  then have "render routes call (window_location_hash fragment) app = (None, [n])"
    using assms(3) unfolding render_def hash by (simp add: Let_def)
  then show ?thesis by (simp add: hashRouter_def)
qed

text \<open>
  Where the table is a plain object without a route under the path and
  \<^verbatim>\<open>Object.prototype\<close> has a member under it, the lookup answers the member and the
  wildcard is not consulted: unless the member is a function that returns a node,
  \<^verbatim>\<open>render\<close> empties the container and raises.
\<close>

lemma render_inherited_member:
  assumes "path = (if fragment = [] then ''/'' else fragment)"
    and "map_of kvs path = None" and "inherited path = Some m" and "truthy m"
    and "\<And>f n. m = Fun f \<Longrightarrow> call f \<noteq> Node n"
  shows "render (read_plain_object inherited kvs) call (window_location_hash fragment) app
         = (Some TypeError, [])"
proof -
  have hash: "(if drop 1 (window_location_hash fragment) = [] then ''/''
               else drop 1 (window_location_hash fragment)) = path"
    using assms(1) by (simp add: window_location_hash_def)
  have m: "read_plain_object inherited kvs path = m"
    using assms(2,3) by (simp add: read_plain_object_def)
  have "(if truthy (read_plain_object inherited kvs path) then read_plain_object inherited kvs path
         else read_plain_object inherited kvs ''*'') = m"
    using m assms(4) by simp
  then show ?thesis
    using assms(5) unfolding render_def hash
    by (cases m) (auto simp: Let_def split: jsval.splits)
qed

text \<open>
  C3. The code departs from the claim. For the table \<^verbatim>\<open>{ "/": f, "*": g }\<close> written as
  an object literal and the hash \<^verbatim>\<open>#constructor\<close>, the table has no route under the
  path and the claim selects the wildcard \<^verbatim>\<open>g\<close>, as \<^verbatim>\<open>render\<close> does at
  \<^verbatim>\<open>#/missing\<close>. But \<^verbatim>\<open>routes[hash]\<close> answers the inherited
  \<^verbatim>\<open>Object.prototype.constructor\<close>, which is truthy: the wildcard is never read, the
  container is emptied, the function \<^verbatim>\<open>Object\<close> is called and returns an object that is
  no node, and \<^verbatim>\<open>appendChild\<close> throws a \<^verbatim>\<open>TypeError\<close>. The same happens at
  \<^verbatim>\<open>#toString\<close>.
\<close>

theorem render_inherited_key:
  "map_of [(''/'', Fun 0), (''*'', Fun 1)] ''constructor'' = None
   \<and> example_route_object ''*'' = Fun 1
   \<and> example_call 1 = Node (HTMLElement ''h1'' [])
   \<and> render example_route_object example_call (window_location_hash ''/missing'') [TextNode ''old'']
     = (None, [HTMLElement ''h1'' []])
   \<and> example_route_object ''constructor'' = Fun 2
   \<and> render example_route_object example_call (window_location_hash ''constructor'') [TextNode ''old'']
     = (Some TypeError, [])
   \<and> render example_route_object example_call (window_location_hash ''toString'') [TextNode ''old'']
     = (Some TypeError, [])"
  by (simp add: example_route_object_def read_plain_object_def example_Object_prototype_def
      example_call_def render_def window_location_hash_def)

text \<open>
  C10. When the table has neither the current path nor \<^verbatim>\<open>*\<close>, the lookup yields
  \<^verbatim>\<open>undefined\<close> and \<^verbatim>\<open>render\<close> raises the \<^verbatim>\<open>TypeError\<close> of calling it, after it has
  emptied the container: \<^verbatim>\<open>render\<close> completes only for tables that have one of the two.
\<close>

theorem render_no_route:
  assumes "path = (if fragment = [] then ''/'' else fragment)"
    and "routes path = Undefined" and "routes ''*'' = Undefined"
  shows "render routes call (window_location_hash fragment) app = (Some TypeError, [])"
proof -
  have hash: "(if drop 1 (window_location_hash fragment) = [] then ''/''
               else drop 1 (window_location_hash fragment)) = path"
    using assms(1) by (simp add: window_location_hash_def)
  show ?thesis
    unfolding render_def hash using assms(2,3) by (simp add: Let_def)
qed

text \<open>The table \<^verbatim>\<open>{ "/": f }\<close> at \<^verbatim>\<open>#/missing\<close>, where it fails, and at the empty hash.\<close>

theorem render_no_route_witness:
  "example_routes_no_wildcard ''/missing'' = Undefined \<and> example_routes_no_wildcard ''*'' = Undefined
   \<and> render example_routes_no_wildcard example_call (window_location_hash ''/missing'') [TextNode ''old'']
     = (Some TypeError, [])
   \<and> render example_routes_no_wildcard example_call (window_location_hash []) [TextNode ''old'']
     = (None, [HTMLElement ''main'' []])"
  using render_no_route [of "''/missing''" "''/missing''" example_routes_no_wildcard example_call
      "[TextNode ''old'']"]
  by (simp add: example_routes_no_wildcard_def example_call_def render_def window_location_hash_def)

end
